theory Spec2Isabelle
  imports Main "HOL-Library.Char_ord" "HOL-Library.List_Lexorder"
begin

section \<open>Timestamps\<close>

text \<open>
  The program reads a \<^verbatim>\<open>time.Time\<close> only through \<^verbatim>\<open>Hour\<close>, \<^verbatim>\<open>Minute\<close>,
  \<^verbatim>\<open>IsZero\<close>, \<^verbatim>\<open>Truncate\<close> and \<^verbatim>\<open>Equal\<close>. A timestamp is an instant, counted in
  nanoseconds from the zero time (January 1 of year 1, 00:00:00 UTC), together with
  the offset of its zone in seconds east of UTC. The clock fields are computed from
  the instant shifted by the offset; truncation and equality work on the instant alone.
\<close>

record Time =
  t_nanos :: int
  t_offset :: int

definition Hour :: "Time \<Rightarrow> int" where
  "Hour t = ((t_nanos t div 1000000000 + t_offset t) mod 86400) div 3600"

definition Minute :: "Time \<Rightarrow> int" where
  "Minute t = ((t_nanos t div 1000000000 + t_offset t) mod 3600) div 60"

definition IsZero :: "Time \<Rightarrow> bool" where
  "IsZero t = (t_nanos t = 0)"

definition Equal :: "Time \<Rightarrow> Time \<Rightarrow> bool" where
  "Equal t u = (t_nanos t = t_nanos u)"

text \<open>\<^verbatim>\<open>t.Truncate(d)\<close> rounds the instant down to a multiple of \<open>d\<close> nanoseconds
  since the zero time, and returns \<open>t\<close> unchanged when \<open>d \<le> 0\<close>.\<close>

definition Truncate :: "Time \<Rightarrow> int \<Rightarrow> Time" where
  "Truncate t d = (if d \<le> 0 then t else t\<lparr>t_nanos := t_nanos t - t_nanos t mod d\<rparr>)"

definition time_Minute :: int where
  "time_Minute = 60000000000"

text \<open>A timestamp on day \<open>d\<close> after the zero time at clock time \<open>h:m:s\<close> UTC.\<close>

definition clock :: "int \<Rightarrow> int \<Rightarrow> int \<Rightarrow> int \<Rightarrow> Time" where
  "clock d h m s = \<lparr>t_nanos = (((d * 24 + h) * 60 + m) * 60 + s) * 1000000000, t_offset = 0\<rparr>"

section \<open>Level classifier\<close>

text \<open>\<^verbatim>\<open>determineBestBackupLevel\<close> of main.go: the five tests in the order of the
  source, each returning at once.\<close>

definition determineBestBackupLevel :: "Time \<Rightarrow> bool \<times> string" where
  "determineBestBackupLevel t =
     (let hour = Hour t; min = Minute t in
      if hour = 0 \<and> min = 0 then (True, ''1d'')
      else if (hour = 0 \<or> hour = 12) \<and> min = 0 then (True, ''12h'')
      else if hour mod 6 = 0 \<and> min = 0 then (True, ''6h'')
      else if hour mod 3 = 0 \<and> min = 0 then (True, ''3h'')
      else if min = 0 \<or> min = 30 then (True, ''30m'')
      else (False, ''''))"

text \<open>The specification's wording: the candidate levels with their match rules, from
  the coarsest to the finest, and the first candidate whose rule holds.\<close>

definition level_rules :: "(string \<times> (int \<Rightarrow> int \<Rightarrow> bool)) list" where
  "level_rules =
     [(''1d'', \<lambda>h m. h = 0 \<and> m = 0),
      (''12h'', \<lambda>h m. (h = 0 \<or> h = 12) \<and> m = 0),
      (''6h'', \<lambda>h m. h mod 6 = 0 \<and> m = 0),
      (''3h'', \<lambda>h m. h mod 3 = 0 \<and> m = 0),
      (''30m'', \<lambda>h m. m = 0 \<or> m = 30)]"

definition classify_spec :: "int \<Rightarrow> int \<Rightarrow> bool \<times> string" where
  "classify_spec h m =
     (case find (\<lambda>(l, p). p h m) level_rules of
        None \<Rightarrow> (False, '''')
      | Some (l, p) \<Rightarrow> (True, l))"

section \<open>Errors and run-time panics\<close>

text \<open>The error values the modelled operations return. \<^verbatim>\<open>os.IsNotExist\<close> holds of the
  error of a missing file or directory only; it does not look inside an error that
  \<^verbatim>\<open>fmt.Errorf\<close> built from another with \<^verbatim>\<open>%v\<close>.\<close>

datatype error =
    ErrNotExist
  | ErrNotDir
  | ErrIsDir
  | ErrJSON string
  | ErrLoad error

definition os_IsNotExist :: "error \<Rightarrow> bool" where
  "os_IsNotExist e = (e = ErrNotExist)"

section \<open>The file system\<close>

text \<open>
  The state the program works on: the regular files it reads and writes whole (the
  ledger), by path, and the directories it lists (the tiers), by path, each with the
  names of its entries. \<^verbatim>\<open>filepath.Join(dir, name)\<close> is the entry \<open>name\<close> of the
  directory \<open>dir\<close>, so the operations on an entry take the two parts.
\<close>

record FS =
  files :: "string \<rightharpoonup> string"
  dirs :: "string \<rightharpoonup> string list"

text \<open>What a call does: it returns a value, or the run stops in a run-time panic,
  leaving the file system as it was at that point.\<close>

datatype 'a run = Returns 'a | Panics FS

definition os_ReadFile :: "FS \<Rightarrow> string \<Rightarrow> error + string" where
  "os_ReadFile fs path =
     (case files fs path of
        Some data \<Rightarrow> Inr data
      | None \<Rightarrow> (if dirs fs path \<noteq> None then Inl ErrIsDir else Inl ErrNotExist))"

definition os_WriteFile :: "FS \<Rightarrow> string \<Rightarrow> string \<Rightarrow> error + FS" where
  "os_WriteFile fs path data =
     (if dirs fs path \<noteq> None then Inl ErrIsDir
      else Inr (fs\<lparr>files := (files fs)(path \<mapsto> data)\<rparr>))"

definition os_MkdirAll :: "FS \<Rightarrow> string \<Rightarrow> error + FS" where
  "os_MkdirAll fs path =
     (if path = [] then Inl ErrNotExist
      else if dirs fs path \<noteq> None then Inr fs
      else if files fs path \<noteq> None then Inl ErrNotDir
      else Inr (fs\<lparr>dirs := (dirs fs)(path \<mapsto> [])\<rparr>))"





text \<open>\<^verbatim>\<open>filepath.Dir\<close> on a clean path with \<open>/\<close> as the separator: all but the last
  element, without trailing separators; \<open>.\<close> when there is no separator and \<open>/\<close>
  when nothing else is left.\<close>

definition filepath_Dir :: "string \<Rightarrow> string" where
  "filepath_Dir path =
     (let d = rev (dropWhile (\<lambda>c. c \<noteq> CHR ''/'') (rev path));
          d' = rev (dropWhile (\<lambda>c. c = CHR ''/'') (rev d))
      in if d = [] then ''.'' else if d' = [] then ''/'' else d')"


section \<open>Configuration\<close>

text \<open>The fields of \<^verbatim>\<open>BackupConfig\<close> that the scheduling and rotation code reads. A Go
  map read at a missing key gives the zero value of the element type.\<close>

record BackupConfig =
  KeepVersions :: "string \<rightharpoonup> int"
  BackupDirs :: "string \<rightharpoonup> string"
  LastExecutionFile :: string
  DryRun :: bool



section \<open>Execution ledger\<close>

text \<open>\<^verbatim>\<open>LastExecutionRecord\<close>: the map is \<open>None\<close> when it is Go's nil map.\<close>

record LastExecutionRecord =
  LastExecutions :: "(string \<rightharpoonup> Time) option"

text \<open>Reading the map at a level, \<^verbatim>\<open>record.LastExecutions[level]\<close> with its presence
  flag: a nil map has no entry.\<close>

definition executionOf :: "LastExecutionRecord \<Rightarrow> string \<Rightarrow> Time option" where
  "executionOf record level = (case LastExecutions record of None \<Rightarrow> None | Some m \<Rightarrow> m level)"

text \<open>The JSON encoding of a record belongs to \<^verbatim>\<open>encoding/json\<close>, not to this
  program: the ledger operations take the decoder \<^verbatim>\<open>json.Unmarshal\<close> and the encoder
  \<^verbatim>\<open>json.MarshalIndent\<close> as parameters, each returning its error message on failure.\<close>

type_synonym json_Unmarshal = "string \<Rightarrow> string + LastExecutionRecord"
type_synonym json_MarshalIndent = "LastExecutionRecord \<Rightarrow> string + string"

definition loadLastExecutionRecord ::
    "json_Unmarshal \<Rightarrow> FS \<Rightarrow> string \<Rightarrow> error + LastExecutionRecord" where
  "loadLastExecutionRecord unmarshal fs filePath =
     (case os_ReadFile fs filePath of
        Inl err \<Rightarrow> Inl err
      | Inr data \<Rightarrow>
          (case unmarshal data of
             Inl msg \<Rightarrow> Inl (ErrJSON msg)
           | Inr record \<Rightarrow>
               Inr (if LastExecutions record = None
                    then record\<lparr>LastExecutions := Some Map.empty\<rparr>
                    else record)))"

definition saveLastExecutionRecord ::
    "json_MarshalIndent \<Rightarrow> FS \<Rightarrow> string \<Rightarrow> LastExecutionRecord \<Rightarrow> FS \<times> error option" where
  "saveLastExecutionRecord marshal fs filePath record =
     (case os_MkdirAll fs (filepath_Dir filePath) of
        Inl err \<Rightarrow> (fs, Some err)
      | Inr fs1 \<Rightarrow>
          (case marshal record of
             Inl msg \<Rightarrow> (fs1, Some (ErrJSON msg))
           | Inr data \<Rightarrow>
               (case os_WriteFile fs1 filePath data of
                  Inl err \<Rightarrow> (fs1, Some err)
                | Inr fs2 \<Rightarrow> (fs2, None))))"

text \<open>\<^verbatim>\<open>recordLastExecution\<close>. Assigning into a nil map would panic; the record that
  \<^verbatim>\<open>loadLastExecutionRecord\<close> returns never has one.\<close>

definition recordLastExecution ::
    "json_MarshalIndent \<Rightarrow> json_Unmarshal \<Rightarrow> BackupConfig \<Rightarrow> FS \<Rightarrow> string \<Rightarrow> Time
       \<Rightarrow> (FS \<times> error option) run" where
  "recordLastExecution marshal unmarshal cfg fs level executionTime =
     (if LastExecutionFile cfg = [] then Returns (fs, None)
      else
        (case loadLastExecutionRecord unmarshal fs (LastExecutionFile cfg) of
           Inl err \<Rightarrow>
             (if \<not> os_IsNotExist err then Returns (fs, Some err)
              else Returns (saveLastExecutionRecord marshal fs (LastExecutionFile cfg)
                     \<lparr>LastExecutions = Some [level \<mapsto> executionTime]\<rparr>))
         | Inr record \<Rightarrow>
             (case LastExecutions record of
                None \<Rightarrow> Panics fs
              | Some m \<Rightarrow>
                  Returns (saveLastExecutionRecord marshal fs (LastExecutionFile cfg)
                    (record\<lparr>LastExecutions := Some (m(level \<mapsto> executionTime))\<rparr>)))))"

section \<open>Scheduling decision\<close>

definition shouldExecuteBackup ::
    "json_Unmarshal \<Rightarrow> BackupConfig \<Rightarrow> FS \<Rightarrow> Time \<Rightarrow> bool \<times> string \<times> error option" where
  "shouldExecuteBackup unmarshal cfg fs currentTime =
     (let (shouldBackup, level) = determineBestBackupLevel currentTime in
      if \<not> shouldBackup then (False, [], None)
      else if LastExecutionFile cfg \<noteq> [] then
        (case loadLastExecutionRecord unmarshal fs (LastExecutionFile cfg) of
           Inl err \<Rightarrow>
             (if \<not> os_IsNotExist err then (False, [], Some (ErrLoad err))
              else (True, level, None))
         | Inr lastRecord \<Rightarrow>
             (case executionOf lastRecord level of
                None \<Rightarrow> (True, level, None)
              | Some lastExecution \<Rightarrow>
                  (if IsZero lastExecution then (True, level, None)
                   else if Equal (Truncate currentTime time_Minute)
                                 (Truncate lastExecution time_Minute)
                   then (False, [], None)
                   else (True, level, None))))
      else (True, level, None))"

text \<open>The specification's wording of the duplicate test: both timestamps fall into
  the same minute, counted from the zero time.\<close>

definition same_minute :: "Time \<Rightarrow> Time \<Rightarrow> bool" where
  "same_minute t u = (t_nanos t div 60000000000 = t_nanos u div 60000000000)"

text \<open>The minute that the clock of the timestamp's zone shows, counted from the zero
  time.\<close>

definition wall_minute :: "Time \<Rightarrow> int" where
  "wall_minute t = (t_nanos t div 1000000000 + t_offset t) div 60"

section \<open>Retention rotator and tier promoter\<close>
















section \<open>Sample data\<close>

text \<open>A configuration, a decoder and an encoder, and file systems on which the theorems
  below are instantiated.\<close>

definition sample_record :: LastExecutionRecord where
  "sample_record = \<lparr>LastExecutions = Some [''30m'' \<mapsto> clock 739000 9 30 0]\<rparr>"

definition sample_unmarshal :: json_Unmarshal where
  "sample_unmarshal data =
     (if data = ''{}'' then Inr \<lparr>LastExecutions = None\<rparr>
      else if data = ''sample'' then Inr sample_record
      else Inl ''unexpected end of JSON input'')"

definition sample_marshal :: json_MarshalIndent where
  "sample_marshal record = Inr ''sample''"

definition sample_cfg :: BackupConfig where
  "sample_cfg = \<lparr>KeepVersions = [''30m'' \<mapsto> 2, ''3h'' \<mapsto> 2, ''6h'' \<mapsto> 2, ''12h'' \<mapsto> 2, ''1d'' \<mapsto> 2],
     BackupDirs = [''30m'' \<mapsto> ''b/30m'', ''3h'' \<mapsto> ''b/3h'', ''6h'' \<mapsto> ''b/6h'', ''12h'' \<mapsto> ''b/12h'', ''1d'' \<mapsto> ''b/1d''],
     LastExecutionFile = ''b/last.json'', DryRun = False\<rparr>"

definition sample_fs :: FS where
  "sample_fs = \<lparr>files = [''b/last.json'' \<mapsto> ''sample''], dirs = [''b'' \<mapsto> []]\<rparr>"






section \<open>Properties of the classifier\<close>

lemma classifier_refines_spec: 
  "determineBestBackupLevel t = classify_spec (Hour t) (Minute t)"
  by (simp add: determineBestBackupLevel_def classify_spec_def level_rules_def Let_def)
lemma classifier_range: "determineBestBackupLevel t \<in>
       {(True, ''1d''), (True, ''12h''), (True, ''6h''), (True, ''3h''), (True, ''30m''),
        (False, '''')}"
  by (simp add: determineBestBackupLevel_def Let_def)
lemma classifier_examples: "(Hour t = 0 \<and> Minute t = 0 \<longrightarrow> determineBestBackupLevel t = (True, ''1d''))
   \<and> (Hour t = 12 \<and> Minute t = 0 \<longrightarrow> determineBestBackupLevel t = (True, ''12h''))
   \<and> (Hour t = 6 \<and> Minute t = 0 \<longrightarrow> determineBestBackupLevel t = (True, ''6h''))
   \<and> (Hour t = 9 \<and> Minute t = 0 \<longrightarrow> determineBestBackupLevel t = (True, ''3h''))
   \<and> (Hour t = 9 \<and> Minute t = 30 \<longrightarrow> determineBestBackupLevel t = (True, ''30m''))
   \<and> (Hour t = 9 \<and> Minute t = 15 \<longrightarrow> determineBestBackupLevel t = (False, ''''))"
  by (simp add: determineBestBackupLevel_def Let_def)
lemma classifier_hour_minute_only: "(\<forall>u. Hour u = Hour t \<and> Minute u = Minute t \<longrightarrow>
          determineBestBackupLevel u = determineBestBackupLevel t)"
  by (simp add: determineBestBackupLevel_def Let_def)

lemma clock_fields: "Hour (clock 739000 0 0 0) = 0" "Minute (clock 739000 0 0 0) = 0"
  "Hour (clock 739000 12 0 0) = 12" "Minute (clock 739000 12 0 0) = 0"
  "Hour (clock 739000 6 0 0) = 6" "Minute (clock 739000 6 0 0) = 0"
  "Hour (clock 739000 9 0 0) = 9" "Minute (clock 739000 9 0 0) = 0"
  "Hour (clock 739000 9 30 0) = 9" "Minute (clock 739000 9 30 0) = 30"
  "Hour (clock 739000 9 15 0) = 9" "Minute (clock 739000 9 15 0) = 15"
  "Hour (clock 739000 9 30 45) = 9" "Minute (clock 739000 9 30 45) = 30"
  "Hour (clock 1 9 30 0) = 9" "Minute (clock 1 9 30 0) = 30"
  by (simp_all add: Hour_def Minute_def clock_def)

text \<open>
  Claim C1. For every timestamp the classifier returns the first candidate, in the
  order 1d, 12h, 6h, 3h, 30m, whose rule matches the hour and the minute, hence one
  of the five levels or none; 00:00 is 1d, 12:00 is 12h, 06:00 is 6h, 09:00 is 3h,
  09:30 is 30m and 09:15 is no level; two timestamps with the same hour and minute
  are classified alike.
\<close>

theorem determineBestBackupLevel_first_match:
  "determineBestBackupLevel t = classify_spec (Hour t) (Minute t)
   \<and> determineBestBackupLevel t \<in>
       {(True, ''1d''), (True, ''12h''), (True, ''6h''), (True, ''3h''), (True, ''30m''),
        (False, '''')}
   \<and> (Hour t = 0 \<and> Minute t = 0 \<longrightarrow> determineBestBackupLevel t = (True, ''1d''))
   \<and> (Hour t = 12 \<and> Minute t = 0 \<longrightarrow> determineBestBackupLevel t = (True, ''12h''))
   \<and> (Hour t = 6 \<and> Minute t = 0 \<longrightarrow> determineBestBackupLevel t = (True, ''6h''))
   \<and> (Hour t = 9 \<and> Minute t = 0 \<longrightarrow> determineBestBackupLevel t = (True, ''3h''))
   \<and> (Hour t = 9 \<and> Minute t = 30 \<longrightarrow> determineBestBackupLevel t = (True, ''30m''))
   \<and> (Hour t = 9 \<and> Minute t = 15 \<longrightarrow> determineBestBackupLevel t = (False, ''''))
   \<and> (\<forall>u. Hour u = Hour t \<and> Minute u = Minute t \<longrightarrow>
          determineBestBackupLevel u = determineBestBackupLevel t)"
  using classifier_refines_spec [of t] classifier_range [of t] classifier_examples [of t]
    classifier_hour_minute_only [of t] by blast

theorem determineBestBackupLevel_first_match_witness:
  "determineBestBackupLevel (clock 739000 0 0 0) = (True, ''1d'')
   \<and> determineBestBackupLevel (clock 739000 12 0 0) = (True, ''12h'')
   \<and> determineBestBackupLevel (clock 739000 6 0 0) = (True, ''6h'')
   \<and> determineBestBackupLevel (clock 739000 9 0 0) = (True, ''3h'')
   \<and> determineBestBackupLevel (clock 739000 9 30 0) = (True, ''30m'')
   \<and> determineBestBackupLevel (clock 739000 9 15 0) = (False, '''')
   \<and> determineBestBackupLevel (clock 739000 9 30 45) = determineBestBackupLevel (clock 1 9 30 0)"
proof -
  note T = determineBestBackupLevel_first_match
  have "determineBestBackupLevel (clock 739000 0 0 0) = (True, ''1d'')"
    using T [of "clock 739000 0 0 0"] by (simp add: clock_fields classify_spec_def level_rules_def)
  moreover have "determineBestBackupLevel (clock 739000 12 0 0) = (True, ''12h'')"
    using T [of "clock 739000 12 0 0"] by (simp add: clock_fields classify_spec_def level_rules_def)
  moreover have "determineBestBackupLevel (clock 739000 6 0 0) = (True, ''6h'')"
    using T [of "clock 739000 6 0 0"] by (simp add: clock_fields classify_spec_def level_rules_def)
  moreover have "determineBestBackupLevel (clock 739000 9 0 0) = (True, ''3h'')"
    using T [of "clock 739000 9 0 0"] by (simp add: clock_fields classify_spec_def level_rules_def)
  moreover have "determineBestBackupLevel (clock 739000 9 30 0) = (True, ''30m'')"
    using T [of "clock 739000 9 30 0"] by (simp add: clock_fields classify_spec_def level_rules_def)
  moreover have "determineBestBackupLevel (clock 739000 9 15 0) = (False, '''')"
    using T [of "clock 739000 9 15 0"] by (simp add: clock_fields classify_spec_def level_rules_def)
  moreover have "determineBestBackupLevel (clock 739000 9 30 45) = determineBestBackupLevel (clock 1 9 30 0)"
    using T [of "clock 1 9 30 0"] by (simp add: clock_fields classify_spec_def level_rules_def)
  ultimately show ?thesis by blast
qed

section \<open>Properties of the ledger and of the scheduling decision\<close>

lemma same_minute_Truncate:
  "Equal (Truncate t time_Minute) (Truncate u time_Minute) = same_minute t u"
proof -
  have "(a - a mod 60000000000 = b - b mod 60000000000) = (a div 60000000000 = b div 60000000000)"
    for a b :: int
    by (simp add: minus_mod_eq_mult_div)
  then show ?thesis
    by (simp add: Equal_def Truncate_def time_Minute_def same_minute_def)
qed

lemma same_minute_wall_clock:
  assumes "t_offset t = t_offset u" "t_offset t mod 60 = 0"
  shows "same_minute t u = (wall_minute t = wall_minute u)"
proof -
  obtain k where k: "t_offset t = 60 * k"
    using assms(2) by (auto simp: mod_eq_0_iff_dvd)
  have d: "a div 60000000000 = a div 1000000000 div 60" for a :: int
    using zdiv_zmult2_eq [of 60 a 1000000000] by simp
  have "wall_minute x = t_nanos x div 60000000000 + k" if "t_offset x = 60 * k" for x
    using that by (simp add: wall_minute_def d)
  then show ?thesis
    using k assms(1) by (simp add: same_minute_def)
qed

lemma load_file:
  "files fs p = Some data \<Longrightarrow> loadLastExecutionRecord um fs p =
     (case um data of Inl msg \<Rightarrow> Inl (ErrJSON msg)
      | Inr r \<Rightarrow> Inr (if LastExecutions r = None then r\<lparr>LastExecutions := Some Map.empty\<rparr> else r))"
  by (simp add: loadLastExecutionRecord_def os_ReadFile_def)


lemma should_no_level:
  "fst (determineBestBackupLevel t) = False \<Longrightarrow> shouldExecuteBackup um cfg fs t = (False, [], None)"
  by (cases "determineBestBackupLevel t") (simp add: shouldExecuteBackup_def)

lemma should_entry:
  assumes "determineBestBackupLevel t = (True, level)" "LastExecutionFile cfg \<noteq> []"
    "files fs (LastExecutionFile cfg) = Some data" "um data = Inr r"
    "executionOf r level = Some prev" "\<not> IsZero prev"
  shows "shouldExecuteBackup um cfg fs t =
     (if same_minute t prev then (False, [], None) else (True, level, None))"
proof -
  obtain m where "LastExecutions r = Some m"
    using assms(5) by (auto simp: executionOf_def split: option.splits)
  then show ?thesis
    using assms by (simp add: shouldExecuteBackup_def load_file same_minute_Truncate)
qed

lemma sample_levels:
  "determineBestBackupLevel (clock 739000 9 30 15) = (True, ''30m'')"
  "determineBestBackupLevel (clock 739000 9 30 45) = (True, ''30m'')"
  "determineBestBackupLevel (clock 739000 10 0 0) = (True, ''30m'')"
  "determineBestBackupLevel (clock 739000 9 15 0) = (False, [])"
  by (simp_all add: determineBestBackupLevel_def Hour_def Minute_def clock_def)

lemma sample_minutes:
  "same_minute (clock 739000 9 30 15) (clock 739000 9 30 0)"
  "same_minute (clock 739000 9 30 45) (clock 739000 9 30 0)"
  "\<not> same_minute (clock 739000 10 0 0) (clock 739000 9 30 0)"
  "\<not> IsZero (clock 739000 9 30 0)"
  by (simp_all add: same_minute_def clock_def IsZero_def)

text \<open>
  Claim C3. At a timestamp that the classifier matches, with a ledger file that parses
  to a record holding a non-zero entry for the classified level, the decision is
  (false, none) exactly when the timestamp and the entry truncate to the same minute,
  and (true, level) otherwise. The minute is that of the instant, which is the minute
  the clock shows when both timestamps carry the same zone offset of whole minutes.
  When the classifier reports no level, the decision is (false, none) whatever the
  file system and the decoder are: the ledger is not read.
\<close>

theorem shouldExecuteBackup_same_minute:
  "(determineBestBackupLevel t = (True, level) \<and> LastExecutionFile cfg \<noteq> [] \<and>
    files fs (LastExecutionFile cfg) = Some data \<and> um data = Inr r \<and>
    executionOf r level = Some prev \<and> \<not> IsZero prev \<longrightarrow>
      ((shouldExecuteBackup um cfg fs t = (False, [], None)) = same_minute t prev) \<and>
      (\<not> same_minute t prev \<longrightarrow> shouldExecuteBackup um cfg fs t = (True, level, None)) \<and>
      same_minute t prev = Equal (Truncate t time_Minute) (Truncate prev time_Minute) \<and>
      (t_offset t = t_offset prev \<and> t_offset t mod 60 = 0 \<longrightarrow>
         same_minute t prev = (wall_minute t = wall_minute prev)))
   \<and> (fst (determineBestBackupLevel t) = False \<longrightarrow>
        shouldExecuteBackup um cfg fs t = (False, [], None))"
proof -
  have a: "fst (determineBestBackupLevel t) = False \<longrightarrow>
        shouldExecuteBackup um cfg fs t = (False, [], None)"
    by (simp add: should_no_level)
  have b: "t_offset t = t_offset prev \<and> t_offset t mod 60 = 0 \<longrightarrow>
         same_minute t prev = (wall_minute t = wall_minute prev)"
    by (intro impI, elim conjE) (rule same_minute_wall_clock)
  have c: "same_minute t prev = Equal (Truncate t time_Minute) (Truncate prev time_Minute)"
    by (simp add: same_minute_Truncate)
  have e: "determineBestBackupLevel t = (True, level) \<and> LastExecutionFile cfg \<noteq> [] \<and>
      files fs (LastExecutionFile cfg) = Some data \<and> um data = Inr r \<and>
      executionOf r level = Some prev \<and> \<not> IsZero prev \<longrightarrow>
        ((shouldExecuteBackup um cfg fs t = (False, [], None)) = same_minute t prev) \<and>
        (\<not> same_minute t prev \<longrightarrow> shouldExecuteBackup um cfg fs t = (True, level, None))"
    using should_entry [of t level cfg fs data um r prev] by simp
  from e a b c show ?thesis by blast
qed


theorem shouldExecuteBackup_same_minute_witness:
  "shouldExecuteBackup sample_unmarshal sample_cfg sample_fs (clock 739000 9 30 15) = (False, [], None)
   \<and> shouldExecuteBackup sample_unmarshal sample_cfg sample_fs (clock 739000 9 30 45) = (False, [], None)
   \<and> shouldExecuteBackup sample_unmarshal sample_cfg sample_fs (clock 739000 10 0 0) = (True, ''30m'', None)
   \<and> shouldExecuteBackup sample_unmarshal sample_cfg sample_fs (clock 739000 9 15 0) = (False, [], None)"
proof -
  note T = shouldExecuteBackup_same_minute [of _ "''30m''" sample_cfg sample_fs "''sample''"
      sample_unmarshal sample_record "clock 739000 9 30 0"]
  have pre: "LastExecutionFile sample_cfg \<noteq> []"
    "files sample_fs (LastExecutionFile sample_cfg) = Some ''sample''"
    "sample_unmarshal ''sample'' = Inr sample_record"
    "executionOf sample_record ''30m'' = Some (clock 739000 9 30 0)"
    by (simp_all add: sample_cfg_def sample_fs_def sample_unmarshal_def sample_record_def
        executionOf_def)
  have "shouldExecuteBackup sample_unmarshal sample_cfg sample_fs (clock 739000 9 30 15) = (False, [], None)"
    using T [of "clock 739000 9 30 15"] pre sample_levels sample_minutes by simp
  moreover have "shouldExecuteBackup sample_unmarshal sample_cfg sample_fs (clock 739000 9 30 45) = (False, [], None)"
    using T [of "clock 739000 9 30 45"] pre sample_levels sample_minutes by simp
  moreover have "shouldExecuteBackup sample_unmarshal sample_cfg sample_fs (clock 739000 10 0 0) = (True, ''30m'', None)"
    using T [of "clock 739000 10 0 0"] pre sample_levels sample_minutes by simp
  moreover have "shouldExecuteBackup sample_unmarshal sample_cfg sample_fs (clock 739000 9 15 0) = (False, [], None)"
    using T [of "clock 739000 9 15 0"] sample_levels by simp
  ultimately show ?thesis by blast
qed

lemma record_disabled:
  "LastExecutionFile cfg = [] \<Longrightarrow> recordLastExecution mar um cfg fs level t = Returns (fs, None)"
  by (simp add: recordLastExecution_def)

lemma should_disabled:
  "LastExecutionFile cfg = [] \<Longrightarrow> determineBestBackupLevel t = (True, level) \<Longrightarrow>
     shouldExecuteBackup um cfg fs t = (True, level, None)"
  by (simp add: shouldExecuteBackup_def)

text \<open>
  Claim C7. With an empty \<^verbatim>\<open>LastExecutionFile\<close>, recording an execution returns no
  error and leaves the file system as it was, and the decision at a matching timestamp
  is (true, level) on every file system, whatever was recorded before.
\<close>

theorem disabled_ledger:
  "LastExecutionFile cfg = [] \<longrightarrow>
     recordLastExecution mar um cfg fs level t = Returns (fs, None) \<and>
     (determineBestBackupLevel now = (True, lv) \<longrightarrow>
        shouldExecuteBackup um cfg fs now = (True, lv, None))"
  using record_disabled [of cfg mar um fs level t] should_disabled [of cfg now lv um fs]
  by blast

theorem disabled_ledger_witness:
  "recordLastExecution sample_marshal sample_unmarshal (sample_cfg\<lparr>LastExecutionFile := []\<rparr>)
       sample_fs ''30m'' (clock 739000 9 30 0) = Returns (sample_fs, None)
   \<and> shouldExecuteBackup sample_unmarshal (sample_cfg\<lparr>LastExecutionFile := []\<rparr>) sample_fs
       (clock 739000 9 30 15) = (True, ''30m'', None)"
  using disabled_ledger [of "sample_cfg\<lparr>LastExecutionFile := []\<rparr>" sample_marshal
      sample_unmarshal sample_fs "''30m''" "clock 739000 9 30 0" "clock 739000 9 30 15" "''30m''"]
    sample_levels
  by simp













section \<open>Properties of the rotator\<close>




















section \<open>What rotation and promotion leave alone\<close>




















section \<open>Properties of the promoter\<close>














section \<open>The chain of tiers\<close>























section \<open>The rotation step of a cycle\<close>













end
